theory Spec2Isabelle
  imports Complex_Main "HOL-Library.Char_ord" "HOL-Library.List_Lexorder" "HOL-Library.Product_Lexorder"
begin

section \<open>Pipeline assembly (\<open>pygst_utils/video_pipeline/__init__.py\<close>)\<close>

text \<open>
  \<open>get_pipeline\<close> builds a GStreamer pipeline: it creates elements, adds them to the
  pipeline and links them. The pipeline is modelled by what the function does to it: the
  list of elements in the order they are added and the list of links in the order they
  are made. An element is the record of the factory (or Python class) that made it, the
  name it was given, the properties set on it and its state. GStreamer itself is outside
  the repository: element creation and linking are taken to succeed (when they do not,
  the exception leaves \<open>get_pipeline\<close> uncaught, and no pipeline is returned).
\<close>

datatype platform = Linux | Other

datatype gst_state = STATE_NULL | STATE_READY

text \<open>
  Values handed to an element: an integer, a string, the pickle of a Python object
  (\<open>pickle.dumps\<close> is kept symbolic) or a Python callable. \<open>'o\<close> is the type of
  the opaque Python objects (the draw queue, the frame-grab callback).
\<close>

datatype 'o prop_value = PInt int | PStr string | PPickle 'o | PCallable 'o

record 'o element =
  factory :: string
  name :: string
  props :: "(string \<times> 'o prop_value) list"
  state :: gst_state

record 'o pipeline =
  pipeline_name :: string
  elements :: "'o element list"
  links :: "('o element \<times> 'o element) list"

definition Pipeline :: "string \<Rightarrow> 'o pipeline" where
  "Pipeline n = \<lparr>pipeline_name = n, elements = [], links = []\<rparr>"

definition element_factory_make :: "string \<Rightarrow> string \<Rightarrow> 'o element" where
  "element_factory_make f n = \<lparr>factory = f, name = n, props = [], state = STATE_NULL\<rparr>"

definition set_property :: "string \<Rightarrow> 'o prop_value \<Rightarrow> 'o element \<Rightarrow> 'o element" where
  "set_property k v e = e\<lparr>props := props e @ [(k, v)]\<rparr>"

definition set_state :: "gst_state \<Rightarrow> 'o element \<Rightarrow> 'o element" where
  "set_state s e = e\<lparr>state := s\<rparr>"

definition add :: "'o element list \<Rightarrow> 'o pipeline \<Rightarrow> 'o pipeline" where
  "add es p = p\<lparr>elements := elements p @ es\<rparr>"

text \<open>\<open>Gst.element_link_many(e1, e2, ..., en)\<close> links each element to the next one.\<close>

fun link_pairs :: "'a list \<Rightarrow> ('a \<times> 'a) list" where
  "link_pairs (a # b # es) = (a, b) # link_pairs (b # es)"
| "link_pairs _ = []"

definition element_link_many :: "'o element list \<Rightarrow> 'o pipeline \<Rightarrow> 'o pipeline" where
  "element_link_many es p = p\<lparr>links := links p @ link_pairs es\<rparr>"

text \<open>
  The elements made by the Python classes \<open>grab_frame\<close>, \<open>WarpBin\<close> and
  \<open>CairoDrawQueue\<close>. The first two classes live in a module that is not among the
  sources; only their constructor calls matter here. The callback handed to
  \<open>grab_frame\<close> is recorded with the element.
\<close>

definition grab_frame :: "string \<Rightarrow> 'o \<Rightarrow> 'o element" where
  "grab_frame n cb =
     \<lparr>factory = ''grab_frame'', name = n, props = [(''on_frame_grabbed'', PCallable cb)],
      state = STATE_NULL\<rparr>"

definition WarpBin :: "string \<Rightarrow> 'o element" where
  "WarpBin n = \<lparr>factory = ''WarpBin'', name = n, props = [], state = STATE_NULL\<rparr>"

definition CairoDrawQueue_element :: "string \<Rightarrow> 'o element" where
  "CairoDrawQueue_element n =
     \<lparr>factory = ''CairoDrawQueue'', name = n, props = [], state = STATE_NULL\<rparr>"

text \<open>
  Python truth values of the optional arguments: \<open>None\<close>, the integer \<open>0\<close> and the
  empty string are false. A callback and a draw queue are plain objects, true whenever
  they are not \<open>None\<close>.
\<close>

fun truthy_int :: "int option \<Rightarrow> bool" where
  "truthy_int None = False"
| "truthy_int (Some b) = (b \<noteq> 0)"

fun truthy_str :: "string option \<Rightarrow> bool" where
  "truthy_str None = False"
| "truthy_str (Some s) = (s \<noteq> [])"

text \<open>
  \<open>get_pipeline(video_source, bitrate, output_path, draw_queue, with_scale, with_warp,
  on_frame_grabbed)\<close>. The platform (\<open>platform.system()\<close>) is a parameter. Each
  optional block returns the pipeline and the new value of \<open>display_pre_sink\<close>.
\<close>

definition get_pipeline ::
  "platform \<Rightarrow> 'o element \<Rightarrow> int option \<Rightarrow> string option \<Rightarrow> 'o option \<Rightarrow> bool \<Rightarrow> bool \<Rightarrow>
   'o option \<Rightarrow> 'o pipeline" where
  "get_pipeline plat video_source0 bitrate output_path draw_queue with_scale with_warp
     on_frame_grabbed =
  (let pipeline = Pipeline ''pipeline'';
       video_source = set_state STATE_READY video_source0;
       pipeline = add [video_source] pipeline;
       video_rate = element_factory_make ''videorate'' ''video_rate'';
       video_tee = element_factory_make ''tee'' ''video_tee'';
       pipeline = add [video_rate, video_tee] pipeline;
       pipeline = element_link_many [video_source, video_rate, video_tee] pipeline;
       display_queue = element_factory_make ''queue'' ''display_queue'';
       video_sink = element_factory_make ''autovideosink'' ''video_sink'';
       pipeline = add [display_queue, video_sink] pipeline;
       pipeline = element_link_many [video_tee, display_queue] pipeline;
       display_pre_sink = display_queue;
       (pipeline, display_pre_sink) =
         (case on_frame_grabbed of
            None \<Rightarrow> (pipeline, display_pre_sink)
          | Some cb \<Rightarrow>
             (let grab_frame_color_in =
                    element_factory_make ''ffmpegcolorspace'' ''grab_frame_color_in'';
                  grab_frame_elem = grab_frame ''grab_frame'' cb;
                  grab_frame_color_out =
                    element_factory_make ''ffmpegcolorspace'' ''grab_frame_color_out'';
                  pipeline = add [grab_frame_color_in, grab_frame_elem, grab_frame_color_out] pipeline;
                  pipeline = element_link_many
                    [display_pre_sink, grab_frame_color_in, grab_frame_elem, grab_frame_color_out]
                    pipeline
              in (pipeline, grab_frame_color_out)));
       (pipeline, display_pre_sink) =
         (if with_scale then
            (let video_scale = element_factory_make ''videoscale'' ''video_scale'';
                 caps_filter = element_factory_make ''capsfilter'' ''video_scale_caps_filter'';
                 pipeline = add [video_scale, caps_filter] pipeline;
                 pipeline = element_link_many [display_pre_sink, video_scale, caps_filter] pipeline
             in (pipeline, caps_filter))
          else (pipeline, display_pre_sink));
       (pipeline, display_pre_sink) =
         (if with_warp then
            (let warp_bin = WarpBin ''warp_bin'';
                 pipeline = add [warp_bin] pipeline;
                 pipeline = element_link_many [display_pre_sink, warp_bin] pipeline
             in (pipeline, warp_bin))
          else (pipeline, display_pre_sink));
       (pipeline, display_pre_sink) =
         (case draw_queue of
            None \<Rightarrow> (pipeline, display_pre_sink)
          | Some q \<Rightarrow>
             (let cairo_color_in = element_factory_make ''ffmpegcolorspace'' ''cairo_color_in'';
                  cairo_draw = CairoDrawQueue_element ''cairo_draw'';
                  cairo_draw = set_property ''draw-queue'' (PPickle q) cairo_draw;
                  cairo_color_out = element_factory_make ''ffmpegcolorspace'' ''cairo_color_out'';
                  pipeline = add [cairo_color_in, cairo_draw, cairo_color_out] pipeline;
                  pipeline = element_link_many
                    [display_pre_sink, cairo_color_in, cairo_draw, cairo_color_out] pipeline
              in (pipeline, cairo_color_out)));
       pipeline = element_link_many [display_pre_sink, video_sink] pipeline
   in (if truthy_int bitrate \<and> truthy_str output_path then
         (case (bitrate, output_path) of
            (Some b, Some path) \<Rightarrow>
              (let capture_queue = element_factory_make ''queue'' ''capture_queue'';
                   capture_color_in =
                     element_factory_make ''ffmpegcolorspace'' ''ffmpeg_color_space'';
                   ffenc_mpeg4 =
                     (if plat = Linux then element_factory_make ''ffenc_mpeg4'' ''ffenc_mpeg40''
                      else element_factory_make ''xvidenc'' ''ffenc_mpeg40'');
                   ffenc_mpeg4 = set_property ''bitrate'' (PInt b) ffenc_mpeg4;
                   avi_mux = element_factory_make ''avimux'' ''avi_mux'';
                   file_sink = element_factory_make ''filesink'' ''file_sink'';
                   file_sink = set_property ''location'' (PStr path) file_sink;
                   pipeline = add [capture_queue, capture_color_in, ffenc_mpeg4, avi_mux,
                     file_sink] pipeline;
                   pipeline = element_link_many [video_tee, capture_queue, capture_color_in,
                     ffenc_mpeg4, avi_mux, file_sink] pipeline
               in pipeline)
          | _ \<Rightarrow> pipeline)
       else pipeline))"

subsection \<open>The chains of the pipeline\<close>

text \<open>
  The elements that \<open>get_pipeline\<close> makes, by the names of its variables, and the
  chains that the properties below speak of: the display chain from the tee to the video
  sink, through the stages that were asked for, and the capture chain from the tee to the
  file sink.
\<close>

definition video_rate :: "'o element" where
  "video_rate = element_factory_make ''videorate'' ''video_rate''"

definition video_tee :: "'o element" where
  "video_tee = element_factory_make ''tee'' ''video_tee''"

definition display_queue :: "'o element" where
  "display_queue = element_factory_make ''queue'' ''display_queue''"

definition video_sink :: "'o element" where
  "video_sink = element_factory_make ''autovideosink'' ''video_sink''"

definition grab_stage :: "'o option \<Rightarrow> 'o element list" where
  "grab_stage on_frame_grabbed =
     (case on_frame_grabbed of
        None \<Rightarrow> []
      | Some cb \<Rightarrow>
          [element_factory_make ''ffmpegcolorspace'' ''grab_frame_color_in'',
           grab_frame ''grab_frame'' cb,
           element_factory_make ''ffmpegcolorspace'' ''grab_frame_color_out''])"

definition scale_stage :: "bool \<Rightarrow> 'o element list" where
  "scale_stage with_scale =
     (if with_scale then
        [element_factory_make ''videoscale'' ''video_scale'',
         element_factory_make ''capsfilter'' ''video_scale_caps_filter'']
      else [])"

definition warp_stage :: "bool \<Rightarrow> 'o element list" where
  "warp_stage with_warp = (if with_warp then [WarpBin ''warp_bin''] else [])"

definition draw_stage :: "'o option \<Rightarrow> 'o element list" where
  "draw_stage draw_queue =
     (case draw_queue of
        None \<Rightarrow> []
      | Some q \<Rightarrow>
          [element_factory_make ''ffmpegcolorspace'' ''cairo_color_in'',
           set_property ''draw-queue'' (PPickle q) (CairoDrawQueue_element ''cairo_draw''),
           element_factory_make ''ffmpegcolorspace'' ''cairo_color_out''])"

definition display_chain :: "'o option \<Rightarrow> bool \<Rightarrow> bool \<Rightarrow> 'o option \<Rightarrow> 'o element list" where
  "display_chain on_frame_grabbed with_scale with_warp draw_queue =
     [video_tee, display_queue] @ grab_stage on_frame_grabbed @ scale_stage with_scale @
     warp_stage with_warp @ draw_stage draw_queue @ [video_sink]"

definition capture_stage :: "platform \<Rightarrow> int \<Rightarrow> string \<Rightarrow> 'o element list" where
  "capture_stage plat b path =
     [element_factory_make ''queue'' ''capture_queue'',
      element_factory_make ''ffmpegcolorspace'' ''ffmpeg_color_space'',
      set_property ''bitrate'' (PInt b)
        (element_factory_make (if plat = Linux then ''ffenc_mpeg4'' else ''xvidenc'')
           ''ffenc_mpeg40''),
      element_factory_make ''avimux'' ''avi_mux'',
      set_property ''location'' (PStr path) (element_factory_make ''filesink'' ''file_sink'')]"

text \<open>The capture stage that a bitrate and an output path give: none unless both are true.\<close>

fun capture_stage_of :: "platform \<Rightarrow> int option \<Rightarrow> string option \<Rightarrow> 'o element list" where
  "capture_stage_of plat (Some b) (Some path) =
     (if b = 0 then [] else if path = [] then [] else capture_stage plat b path)"
| "capture_stage_of plat _ _ = []"

text \<open>The elements that a link leaves from \<open>e\<close> reach directly.\<close>

definition linked_from :: "'o pipeline \<Rightarrow> 'o element \<Rightarrow> 'o element list" where
  "linked_from p e = map snd (filter (\<lambda>l. fst l = e) (links p))"

section \<open>Python exceptions\<close>

text \<open>
  The exceptions that the modelled code raises, catches or lets through. A function that
  may raise returns \<open>py_error + 'a\<close>: \<open>Inl e\<close> is the exception leaving the function.
\<close>

datatype py_error =
  DeviceNotFound | OSError | LinkError | AttributeError | KeyError | ValueError
  | Exception string

section \<open>Overlay draw transform (\<open>pygst_utils/elements/cairo_draw.py\<close>)\<close>

text \<open>
  Cairo and the buffer are outside the repository. \<open>'b\<close> is the content of a video
  buffer. The environment says how the calls behave: \<open>acquire\<close> is the first
  \<open>try\<close> block of a draw function (read the caps of the buffer, wrap the buffer
  in a surface and make a context), and \<open>call\<close> is one drawing command on that
  context, which draws into the buffer or raises. The geometric arguments of the commands
  are floating-point values computed from the width and the height; they are left out.
\<close>

datatype cairo_call =
  SetSourceRgba rat rat rat rat | MoveTo | Arc | ClosePath | Fill | SetFontSize
  | TextExtents | TextPath

record 'b cairo =
  acquire :: "'b \<Rightarrow> py_error + unit"
  call :: "cairo_call \<Rightarrow> 'b \<Rightarrow> py_error + 'b"

text \<open>What a draw function prints: a message, or the traceback of an exception.\<close>

datatype printed = Message string | Traceback py_error

datatype flow_return = FLOW_OK

text \<open>
  The commands of a \<open>try\<close> block, one after the other. The buffer is drawn on in
  place: when a command raises, the buffer holds what the earlier commands drew.
\<close>

fun run_calls :: "'b cairo \<Rightarrow> cairo_call list \<Rightarrow> 'b \<Rightarrow> (py_error \<times> 'b) + 'b" where
  "run_calls env [] buf = Inr buf"
| "run_calls env (c # cs) buf =
     (case call env c buf of
        Inl e \<Rightarrow> Inl (e, buf)
      | Inr buf' \<Rightarrow> run_calls env cs buf')"

text \<open>
  A draw function takes the buffer and returns it with what was printed, or raises.
  \<open>other_draw_on\<close> (the default \<open>draw_func\<close>) and the method \<open>draw_on\<close> differ
  in the colour of the circle only.
\<close>

type_synonym 'b draw_func = "'b \<Rightarrow> py_error + ('b \<times> printed list)"

definition hello_world_calls :: "rat \<Rightarrow> cairo_call list" where
  "hello_world_calls blue =
     [SetSourceRgba 0 0 blue (7 / 10), MoveTo, Arc, ClosePath, Fill,
      SetSourceRgba 1 1 1 1, SetFontSize, TextExtents, MoveTo, TextPath, Fill]"

definition draw_hello_world :: "rat \<Rightarrow> 'b cairo \<Rightarrow> 'b draw_func" where
  "draw_hello_world blue env buf =
     (case acquire env buf of
        Inl e \<Rightarrow>
          Inr (buf, [Message ''Failed to create cairo surface for buffer'', Traceback e])
      | Inr _ \<Rightarrow>
          (case run_calls env (hello_world_calls blue) buf of
             Inl (e, buf') \<Rightarrow> Inr (buf', [Message ''Failed cairo render'', Traceback e])
           | Inr buf' \<Rightarrow> Inr (buf', [])))"

definition other_draw_on :: "'b cairo \<Rightarrow> 'b draw_func" where
  "other_draw_on = draw_hello_world 1"

definition draw_on :: "'b cairo \<Rightarrow> 'b draw_func" where
  "draw_on = draw_hello_world 0"

text \<open>
  \<open>CairoDrawBase.__init__(name, draw_func=other_draw_on)\<close> replaces the method
  \<open>draw_on\<close> by \<open>draw_func\<close> unless \<open>draw_func\<close> is false (\<open>None\<close>).
\<close>

definition CairoDrawBase :: "'b cairo \<Rightarrow> 'b draw_func option \<Rightarrow> 'b draw_func" where
  "CairoDrawBase env draw_func = (case draw_func of None \<Rightarrow> draw_on env | Some f \<Rightarrow> f)"

text \<open>
  \<open>do_transform_ip\<close>: call the draw function, then return \<open>Gst.FLOW_OK\<close>. An
  exception of the draw function leaves \<open>do_transform_ip\<close>.
\<close>

definition do_transform_ip ::
  "'b draw_func \<Rightarrow> 'b \<Rightarrow> py_error + (flow_return \<times> 'b \<times> printed list)" where
  "do_transform_ip self_draw_on buffer =
     (case self_draw_on buffer of
        Inl e \<Rightarrow> Inl e
      | Inr (buf', out) \<Rightarrow> Inr (FLOW_OK, buf', out))"

text \<open>
  \<open>CairoDrawQueue.render_draw_queue\<close>. The class \<open>DrawQueue\<close> is not among the
  sources: a draw queue is given by what its \<open>render\<close> method does on the context (it
  draws into the buffer or raises), and, as a plain object, it is true when it is not
  \<open>None\<close>.
\<close>

type_synonym 'b draw_queue = "'b \<Rightarrow> py_error + 'b"

definition render_draw_queue :: "'b cairo \<Rightarrow> 'b draw_queue option \<Rightarrow> 'b draw_func" where
  "render_draw_queue env self_draw_queue buf =
     (case self_draw_queue of
        None \<Rightarrow> Inr (buf, [])
      | Some render \<Rightarrow>
          (case acquire env buf of
             Inl e \<Rightarrow>
               Inr (buf, [Message ''Failed to create cairo surface for buffer'', Traceback e])
           | Inr _ \<Rightarrow>
               (case render buf of
                  Inl e \<Rightarrow> Inl e
                | Inr buf' \<Rightarrow> Inr (buf', []))))"

definition CairoDrawQueue :: "'b cairo \<Rightarrow> 'b draw_queue option \<Rightarrow> 'b draw_func" where
  "CairoDrawQueue env self_draw_queue =
     CairoDrawBase env (Some (render_draw_queue env self_draw_queue))"

section \<open>Video source capabilities (\<open>pygst_utils/video_source.py\<close>)\<close>

subsection \<open>Device discovery\<close>

text \<open>
  The outcome of a call into the operating system or into GStreamer: it raises or it
  returns a value.
\<close>

datatype 'a io = Raises py_error | Returns 'a

text \<open>
  \<open>get_video_source_names()\<close>. The parameters are \<open>platform.system()\<close>, the
  outcome of \<open>path('/dev/v4l/by-id').listdir()\<close> and the outcome of making the source
  element and probing its device property. The test \<open>if not devices\<close> stands in the
  \<open>else\<close> branch only.
\<close>

definition get_video_source_names ::
  "platform \<Rightarrow> string list io \<Rightarrow> string list io \<Rightarrow> py_error + string list" where
  "get_video_source_names system listdir probe_get_values_name =
     (if system = Linux then
        (case listdir of
           Raises e \<Rightarrow> (if e = OSError then Inl DeviceNotFound else Inl e)
         | Returns devices \<Rightarrow> Inr devices)
      else
        (let devices = (case probe_get_values_name of Raises e \<Rightarrow> [] | Returns ds \<Rightarrow> ds)
         in if devices = [] then Inl DeviceNotFound else Inr devices))"

subsection \<open>GStreamer values and data frames\<close>

text \<open>
  Python is dynamically typed: a cell of a data frame holds any of the values below.
  \<open>GFloat n\<close> is the float that pandas makes of the integer \<open>n\<close>, and
  \<open>GFloatQuot n d\<close> the float that dividing the integer \<open>n\<close> by the integer
  \<open>d\<close> gives in pandas (rounded, infinite or not a number when \<open>d = 0\<close>); both
  are kept symbolic. \<open>NaN\<close> is what pandas puts into a cell that has no value.
\<close>

datatype gval =
  GInt int | GStr string | Fourcc string | IntRange int int | Fraction int int
  | FractionRange gval gval | GList "gval list" | GFloat int | GFloatQuot int int | NaN

text \<open>
  A \<open>pandas.DataFrame\<close>: the column labels and the rows, each row holding one cell
  per column. The row index is the position in the list.
\<close>

record dataframe =
  columns :: "string list"
  rows :: "gval list list"

definition cell :: "string list \<Rightarrow> string \<Rightarrow> gval list \<Rightarrow> gval" where
  "cell cols c row = (case map_of (zip cols row) c of Some v \<Rightarrow> v | None \<Rightarrow> NaN)"

text \<open>\<open>df[c]\<close> and \<open>df.c\<close> for a label that the frame has.\<close>

definition column :: "string \<Rightarrow> dataframe \<Rightarrow> gval list" where
  "column c df = map (cell (columns df) c) (rows df)"

text \<open>\<open>df[labels]\<close> for labels that the frame has.\<close>

definition select_columns :: "string list \<Rightarrow> dataframe \<Rightarrow> dataframe" where
  "select_columns labels df =
     \<lparr>columns = labels, rows = map (\<lambda>r. map (\<lambda>l. cell (columns df) l r) labels) (rows df)\<rparr>"

text \<open>\<open>df.drop(labels, axis=1)\<close> raises \<open>KeyError\<close> when a label is not a column.\<close>

definition drop_columns :: "string list \<Rightarrow> dataframe \<Rightarrow> py_error + dataframe" where
  "drop_columns labels df =
     (if list_all (\<lambda>l. l \<in> set (columns df)) labels then
        Inr \<lparr>columns = filter (\<lambda>c. c \<notin> set labels) (columns df),
             rows = map (\<lambda>r. map snd (filter (\<lambda>kv. fst kv \<notin> set labels) (zip (columns df) r)))
                      (rows df)\<rparr>
      else Inl KeyError)"

text \<open>\<open>df[c] = values\<close> overwrites the column \<open>c\<close>, or appends it as the last one.\<close>

definition set_cell :: "string list \<Rightarrow> string \<Rightarrow> gval \<Rightarrow> gval list \<Rightarrow> gval list" where
  "set_cell cols c v row =
     (if c \<in> set cols then map (\<lambda>kx. if fst kx = c then v else snd kx) (zip cols row)
      else row @ [v])"

definition set_column :: "string \<Rightarrow> gval list \<Rightarrow> dataframe \<Rightarrow> dataframe" where
  "set_column c vs df =
     \<lparr>columns = (if c \<in> set (columns df) then columns df else columns df @ [c]),
      rows = map (\<lambda>vr. set_cell (columns df) c (fst vr) (snd vr)) (zip vs (rows df))\<rparr>"

text \<open>\<open>df.insert(loc, c, values)\<close> raises when the frame has a column \<open>c\<close> already.\<close>

definition insert_column :: "nat \<Rightarrow> string \<Rightarrow> gval list \<Rightarrow> dataframe \<Rightarrow> py_error + dataframe" where
  "insert_column loc c vs df =
     (if c \<in> set (columns df) then Inl ValueError
      else Inr \<lparr>columns = take loc (columns df) @ [c] @ drop loc (columns df),
                rows = map (\<lambda>vr. take loc (snd vr) @ [fst vr] @ drop loc (snd vr))
                         (zip vs (rows df))\<rparr>)"

text \<open>A function that may raise, applied to each element in turn: the first exception wins.\<close>

fun map_err :: "('a \<Rightarrow> py_error + 'b) \<Rightarrow> 'a list \<Rightarrow> py_error + 'b list" where
  "map_err f [] = Inr []"
| "map_err f (x # xs) =
     (case f x of
        Inl e \<Rightarrow> Inl e
      | Inr y \<Rightarrow> (case map_err f xs of Inl e \<Rightarrow> Inl e | Inr ys \<Rightarrow> Inr (y # ys)))"

subsection \<open>Normalising one capability\<close>

text \<open>
  \<open>extract_dimensions\<close> gets the width and the height of one row: a value that is a
  \<open>Gst.IntRange\<close> is replaced by the \<open>high\<close> of the range. The docstring
  promises a \<open>pandas.Series\<close>; the function returns the list
  \<open>[dimensions_obj['width'], dimensions_obj['height']]\<close>.
\<close>

fun high_if_IntRange :: "gval \<Rightarrow> gval" where
  "high_if_IntRange (IntRange low high) = GInt high"
| "high_if_IntRange v = v"

definition extract_dimensions :: "gval \<times> gval \<Rightarrow> gval list" where
  "extract_dimensions dimensions_obj =
     [high_if_IntRange (fst dimensions_obj), high_if_IntRange (snd dimensions_obj)]"

text \<open>\<open>extract_format\<close>: the attribute \<open>fourcc\<close>, which only a \<open>Gst.Fourcc\<close> has.\<close>

fun extract_format :: "gval \<Rightarrow> py_error + gval" where
  "extract_format (Fourcc s) = Inr (GStr s)"
| "extract_format _ = Inl AttributeError"

text \<open>
  \<open>extract_fps\<close>. \<open>(fps.num, fps.denom)\<close> needs a \<open>Gst.Fraction\<close>. The loop of
  the \<open>try\<close> block runs over a list (and over the characters of a string); any other
  value is not iterable, and the \<open>TypeError\<close> leads to the two ends of a
  \<open>Gst.FractionRange\<close>, or to the value itself. The result is
  \<open>sorted(set(framerates))\<close>: Python orders the pairs lexicographically.
\<close>

fun num_denom :: "gval \<Rightarrow> py_error + (int \<times> int)" where
  "num_denom (Fraction n d) = Inr (n, d)"
| "num_denom _ = Inl AttributeError"

definition sorted_set :: "(int \<times> int) list \<Rightarrow> (int \<times> int) list" where
  "sorted_set framerates = sort (remdups framerates)"

fun extract_fps :: "gval \<Rightarrow> py_error + (int \<times> int) list" where
  "extract_fps (GList fs) = map_sum id sorted_set (map_err num_denom fs)"
| "extract_fps (GStr s) = map_sum id sorted_set (map_err num_denom (map (\<lambda>c. GStr [c]) s))"
| "extract_fps (FractionRange low high) = map_sum id sorted_set (map_err num_denom [low, high])"
| "extract_fps fps = map_sum id sorted_set (map_err num_denom [fps])"

subsection \<open>Applying a function to the rows of a frame\<close>

text \<open>
  \<open>df.apply(f, axis=1)\<close> for a function \<open>f\<close> that returns a list, as
  \<open>extract_dimensions\<close> does. Since pandas 0.23 the result for a frame with rows is a
  \<open>Series\<close> that holds the lists, one per row; it is not a frame with the columns of
  \<open>df\<close>. For a frame without rows pandas gives back a copy of the frame or an empty
  \<open>Series\<close>, depending on its version: this is a parameter.
\<close>

datatype empty_apply = Copy_of_frame | Empty_series

datatype applied = Frame dataframe | Series "gval list"

definition apply_extract_dimensions :: "empty_apply \<Rightarrow> dataframe \<Rightarrow> applied" where
  "apply_extract_dimensions pandas df =
     (if rows df = [] then
        (case pandas of Copy_of_frame \<Rightarrow> Frame df | Empty_series \<Rightarrow> Series [])
      else
        Series (map (\<lambda>r. GList (extract_dimensions
                       (cell (columns df) ''width'' r, cell (columns df) ''height'' r)))
                  (rows df)))"

text \<open>
  The attribute \<open>c\<close> of the result: a column of a frame. A \<open>Series\<close> indexed by
  the row numbers has no attribute of that name.
\<close>

definition getattr_column :: "applied \<Rightarrow> string \<Rightarrow> py_error + gval list" where
  "getattr_column a c =
     (case a of
        Frame df \<Rightarrow> (if c \<in> set (columns df) then Inr (column c df) else Inl AttributeError)
      | Series xs \<Rightarrow> Inl AttributeError)"

subsection \<open>Normalising a table of capabilities\<close>

text \<open>The quotient of two cells, as pandas divides two integer columns.\<close>

fun true_divide :: "gval \<Rightarrow> gval \<Rightarrow> gval" where
  "true_divide (GInt n) (GInt d) = GFloatQuot n d"
| "true_divide _ _ = NaN"

text \<open>
  \<open>expand_allowed_capabilities\<close>, statement by statement. \<open>df_dimensions.width\<close>
  is evaluated before the \<open>insert\<close> that takes it. Building the frame of the expanded
  rows with the labels \<open>framerate_num\<close> and \<open>framerate_denom\<close> gives a frame with
  a repeated label when the table of capabilities has such a column already; the division
  then selects several columns and the assignment of \<open>framerate\<close> raises.
\<close>

definition expand_allowed_capabilities :: "empty_apply \<Rightarrow> dataframe \<Rightarrow> py_error + dataframe" where
  "expand_allowed_capabilities pandas df_allowed_caps =
     (case drop_columns [''framerate'', ''width'', ''height'', ''format''] df_allowed_caps of
        Inl e \<Rightarrow> Inl e
      | Inr df_modes \<Rightarrow>
     (case map_err extract_format (column ''format'' df_allowed_caps) of
        Inl e \<Rightarrow> Inl e
      | Inr fourcc \<Rightarrow>
     (let df_modes = set_column ''fourcc'' fourcc df_modes;
          df_dimensions = apply_extract_dimensions pandas
            (select_columns [''width'', ''height''] df_allowed_caps)
      in
     (case getattr_column df_dimensions ''width'' of
        Inl e \<Rightarrow> Inl e
      | Inr width \<Rightarrow>
     (case insert_column 0 ''width'' width df_modes of
        Inl e \<Rightarrow> Inl e
      | Inr df_modes \<Rightarrow>
     (case getattr_column df_dimensions ''height'' of
        Inl e \<Rightarrow> Inl e
      | Inr height \<Rightarrow>
     (case insert_column 1 ''height'' height df_modes of
        Inl e \<Rightarrow> Inl e
      | Inr df_modes \<Rightarrow>
     (case map_err extract_fps (column ''framerate'' df_allowed_caps) of
        Inl e \<Rightarrow> Inl e
      | Inr frame_rates \<Rightarrow>
     (let frames = concat (map
            (\<lambda>mf. map (\<lambda>fps_j. fst mf @ [GInt (fst fps_j), GInt (snd fps_j)]) (snd mf))
            (zip (rows df_modes) frame_rates))
      in
        if ''framerate_num'' \<in> set (columns df_modes) \<or>
           ''framerate_denom'' \<in> set (columns df_modes)
        then Inl ValueError
        else
          (let df_modes = \<lparr>columns = columns df_modes @ [''framerate_num'', ''framerate_denom''],
                            rows = frames\<rparr>
           in Inr (set_column ''framerate''
                (map (\<lambda>nd. true_divide (fst nd) (snd nd))
                   (zip (column ''framerate_num'' df_modes) (column ''framerate_denom'' df_modes)))
                df_modes)))))))))))"

subsection \<open>Querying the devices\<close>

text \<open>
  One structure of the caps that \<open>source_pad.get_allowed_caps()\<close> returns: its name
  and its fields. The probe of a device (make the elements, link them, read the allowed
  caps) raises \<open>Gst.LinkError\<close>, raises something else, or gives the structures.
\<close>

record caps_structure =
  get_name :: string
  struct_fields :: "(string \<times> gval) list"

datatype probe_result = LinkFails | ProbeRaises py_error | AllowedCaps "caps_structure list"

text \<open>
  A Python \<open>dict\<close> keeps its keys in the order in which they were first set; setting a
  key again replaces the value in place.
  \<open>dict([(k, c[k]) for k in c.keys()] + [('name', c.get_name())])\<close> is the dict of
  the pairs, set one after the other.
\<close>

fun dict_set :: "string \<Rightarrow> gval \<Rightarrow> (string \<times> gval) list \<Rightarrow> (string \<times> gval) list" where
  "dict_set k v [] = [(k, v)]"
| "dict_set k v (p # d) = (if fst p = k then (k, v) # d else p # dict_set k v d)"

definition dict_of :: "(string \<times> gval) list \<Rightarrow> (string \<times> gval) list" where
  "dict_of pairs = foldl (\<lambda>d kv. dict_set (fst kv) (snd kv) d) [] pairs"

definition caps_dict :: "caps_structure \<Rightarrow> (string \<times> gval) list" where
  "caps_dict c = dict_of (struct_fields c @ [(''name'', GStr (get_name c))])"

text \<open>
  \<open>pandas.DataFrame(list_of_dicts)\<close>. The columns are the keys of the dicts in the
  order in which they first appear; a key that a dict lacks gives \<open>NaN\<close>. A column in
  which every cell is a number, and not every cell an integer, becomes a column of floats
  (so a column of integers with a missing value does). The integers of GStreamer caps fit
  into 64 bits.
\<close>

definition first_appearance :: "string list \<Rightarrow> string list" where
  "first_appearance ks = rev (remdups (rev ks))"

fun is_number :: "gval \<Rightarrow> bool" where
  "is_number (GInt n) = True"
| "is_number (GFloat n) = True"
| "is_number (GFloatQuot n d) = True"
| "is_number NaN = True"
| "is_number _ = False"

fun is_integer :: "gval \<Rightarrow> bool" where
  "is_integer (GInt n) = True"
| "is_integer _ = False"

fun to_float :: "gval \<Rightarrow> gval" where
  "to_float (GInt n) = GFloat n"
| "to_float v = v"

definition dict_cell :: "(string \<times> gval) list \<Rightarrow> string \<Rightarrow> gval" where
  "dict_cell d c = (case map_of d c of Some v \<Rightarrow> v | None \<Rightarrow> NaN)"

definition float_column :: "(string \<times> gval) list list \<Rightarrow> string \<Rightarrow> bool" where
  "float_column dicts c =
     (list_all (\<lambda>d. is_number (dict_cell d c)) dicts \<and>
      \<not> list_all (\<lambda>d. is_integer (dict_cell d c)) dicts)"

definition DataFrame :: "(string \<times> gval) list list \<Rightarrow> dataframe" where
  "DataFrame dicts =
     (let cols = first_appearance (concat (map (map fst) dicts))
      in \<lparr>columns = cols,
          rows = map (\<lambda>d. map (\<lambda>c. if float_column dicts c then to_float (dict_cell d c)
                                    else dict_cell d c) cols) dicts\<rparr>)"

definition get_allowed_capabilities ::
  "(string \<Rightarrow> probe_result) \<Rightarrow> string \<Rightarrow> py_error + dataframe" where
  "get_allowed_capabilities probe device_name =
     (case probe device_name of
        LinkFails \<Rightarrow> Inr (DataFrame [])
      | ProbeRaises e \<Rightarrow> Inl e
      | AllowedCaps cs \<Rightarrow> Inr (DataFrame (map caps_dict cs)))"

text \<open>The loop of \<open>get_source_capabilities\<close> over the device names.\<close>

fun source_frames ::
  "empty_apply \<Rightarrow> (string \<Rightarrow> probe_result) \<Rightarrow> string list \<Rightarrow> py_error + dataframe list" where
  "source_frames pandas probe [] = Inr []"
| "source_frames pandas probe (device_name_i # names) =
     (case get_allowed_capabilities probe device_name_i of
        Inl e \<Rightarrow> Inl e
      | Inr df_allowed_caps_i \<Rightarrow>
          if rows df_allowed_caps_i = [] then source_frames pandas probe names
          else
            (case expand_allowed_capabilities pandas df_allowed_caps_i of
               Inl e \<Rightarrow> Inl e
             | Inr df_source_caps_i \<Rightarrow>
                 (case insert_column 0 ''device_name''
                         (replicate (length (rows df_source_caps_i)) (GStr device_name_i))
                         df_source_caps_i of
                    Inl e \<Rightarrow> Inl e
                  | Inr df_source_caps_i \<Rightarrow>
                      (case source_frames pandas probe names of
                         Inl e \<Rightarrow> Inl e
                       | Inr frames \<Rightarrow> Inr (df_source_caps_i # frames)))))"

text \<open>
  \<open>get_source_capabilities(video_source_names=None)\<close>. The environment holds what
  the operating system, GStreamer and pandas answer. \<open>pandas.concat\<close> is outside the
  repository: \<open>pandas_concat\<close> stands for
  \<open>pd.concat(frames).reset_index(drop=True)\<close>, whatever it gives.
\<close>

record environment =
  system :: platform
  listdir :: "string list io"
  probe_get_values_name :: "string list io"
  probe :: "string \<Rightarrow> probe_result"
  pandas_empty_apply :: empty_apply
  pandas_concat :: "dataframe list \<Rightarrow> dataframe"

definition get_source_capabilities :: "environment \<Rightarrow> string list option \<Rightarrow> py_error + dataframe" where
  "get_source_capabilities env video_source_names =
     (case (case video_source_names of
              None \<Rightarrow> get_video_source_names (system env) (listdir env) (probe_get_values_name env)
            | Some names \<Rightarrow> Inr names) of
        Inl e \<Rightarrow> Inl e
      | Inr names \<Rightarrow>
          (case source_frames (pandas_empty_apply env) (probe env) names of
             Inl e \<Rightarrow> Inl e
           | Inr frames \<Rightarrow>
               if frames \<noteq> [] then Inr (pandas_concat env frames)
               else Inr \<lparr>columns = [], rows = []\<rparr>))"

section \<open>Properties of the pipeline assembly\<close>

lemmas get_pipeline_defs = get_pipeline_def Let_def add_def element_link_many_def Pipeline_def

lemmas chain_defs = display_chain_def grab_stage_def scale_stage_def warp_stage_def
  draw_stage_def video_rate_def video_tee_def display_queue_def video_sink_def

lemma link_pairs_zip: "link_pairs xs = zip xs (tl xs)"
  by (induction xs rule: link_pairs.induct) auto

lemma truthyE:
  assumes "truthy_int br \<and> truthy_str op"
  obtains b path where "br = Some b" "op = Some path" "b \<noteq> 0" "path \<noteq> []"
  using assms by (cases br; cases op) auto

lemma not_truthy_capture:
  "\<not> (truthy_int br \<and> truthy_str op) \<Longrightarrow> capture_stage_of plat br op = []"
  by (cases br; cases op) auto

lemma get_pipeline_no_capture:
  assumes "\<not> (truthy_int br \<and> truthy_str op)"
  shows "get_pipeline plat src br op dq sc wp cb = get_pipeline plat src None None dq sc wp cb"
proof -
  have c: "(truthy_int br \<and> truthy_str op) = False"
    using assms by simp
  show ?thesis
    unfolding get_pipeline_def c by simp
qed

lemma display_links:
  "links (get_pipeline plat src None None dq sc wp cb) =
     link_pairs (set_state STATE_READY src # video_rate # display_chain cb sc wp dq)"
  by (cases cb; cases dq; cases sc; cases wp) (simp_all add: get_pipeline_defs chain_defs)

lemma display_elements:
  "elements (get_pipeline plat src None None dq sc wp cb) =
     [set_state STATE_READY src, video_rate, video_tee, display_queue, video_sink] @
     grab_stage cb @ scale_stage sc @ warp_stage wp @ draw_stage dq"
  by (cases cb; cases dq; cases sc; cases wp) (simp_all add: get_pipeline_defs chain_defs)

lemma display_chain_distinct: "distinct (display_chain cb sc wp dq)"
  by (cases cb; cases dq; cases sc; cases wp)
     (simp_all add: chain_defs element_factory_make_def grab_frame_def WarpBin_def
        CairoDrawQueue_element_def set_property_def)

lemma get_pipeline_capture:
  assumes "b \<noteq> 0" "path \<noteq> []"
  shows "get_pipeline plat src (Some b) (Some path) dq sc wp cb =
    (let p = get_pipeline plat src None None dq sc wp cb
     in p\<lparr>elements := elements p @ capture_stage plat b path,
          links := links p @ link_pairs (video_tee # capture_stage plat b path)\<rparr>)"
  using assms
  by (cases cb; cases dq; cases sc; cases wp; cases "plat = Linux")
     (simp_all add: get_pipeline_defs capture_stage_def video_tee_def)

text \<open>
  C4, as the code has it. \<open>get_pipeline\<close> builds a capture branch if and only if the
  bitrate and the output path are both true in Python's sense (a bitrate that is neither
  \<open>None\<close> nor \<open>0\<close>, a path that is neither \<open>None\<close> nor empty). The pipeline
  is then the one built without bitrate and path, for the same display options, with the
  five elements of \<open>capture_stage\<close> (queue, colorspace converter, the encoder of the
  platform with the bitrate, AVI muxer, file sink with the path) added and linked in that
  order from the tee. Otherwise it is the pipeline built without bitrate and path.
\<close>

theorem capture_branch_iff_truthy:
  "get_pipeline plat src br op dq sc wp cb =
     (let p = get_pipeline plat src None None dq sc wp cb
      in case (br, op) of
           (Some b, Some path) \<Rightarrow>
             if b \<noteq> 0 \<and> path \<noteq> [] then
               p\<lparr>elements := elements p @ capture_stage plat b path,
                 links := links p @ link_pairs (video_tee # capture_stage plat b path)\<rparr>
             else p
         | _ \<Rightarrow> p)"
proof (cases "truthy_int br \<and> truthy_str op")
  case True
  then obtain b path where "br = Some b" "op = Some path" "b \<noteq> 0" "path \<noteq> []"
    by (rule truthyE)
  then show ?thesis
    by (simp add: get_pipeline_capture)
next
  case False
  have "get_pipeline plat src br op dq sc wp cb = get_pipeline plat src None None dq sc wp cb"
    using False by (rule get_pipeline_no_capture)
  with False show ?thesis
    by (cases br; cases op) (auto simp: Let_def)
qed

text \<open>
  C4 as the claim states it fails: with the bitrate \<open>0\<close> and the output path
  \<open>out.avi\<close> both are supplied, and the pipeline has the five elements of the display
  branch only; the tee feeds the display queue and nothing else.
\<close>

theorem capture_branch_supplied_counterexample:
  "elements (get_pipeline Linux (element_factory_make ''v4l2src'' ''video_source'' :: unit element)
      (Some 0) (Some ''out.avi'') None False False None) =
     [set_state STATE_READY (element_factory_make ''v4l2src'' ''video_source''),
      video_rate, video_tee, display_queue, video_sink] \<and>
   linked_from (get_pipeline Linux (element_factory_make ''v4l2src'' ''video_source'' :: unit element)
      (Some 0) (Some ''out.avi'') None False False None) video_tee = [display_queue]"
  by (simp add: get_pipeline_defs linked_from_def chain_defs element_factory_make_def
      set_state_def)

text \<open>
  C5. Called with a video source only, \<open>get_pipeline\<close> gives the pipeline whose
  elements are the source, the videorate, the tee, the display queue and the video sink,
  linked in that order, and nothing else.
\<close>

theorem get_pipeline_source_only:
  "get_pipeline plat video_source None None None False False None =
     \<lparr>pipeline_name = ''pipeline'',
      elements = [set_state STATE_READY video_source, video_rate, video_tee, display_queue,
        video_sink],
      links = [(set_state STATE_READY video_source, video_rate), (video_rate, video_tee),
        (video_tee, display_queue), (display_queue, video_sink)]\<rparr>"
  by (simp add: get_pipeline_defs chain_defs)

text \<open>
  C8. For every choice of the four display options, and whatever the bitrate and the
  output path are, the links of the pipeline are those of one chain: source, videorate,
  tee, display queue, then the stages that were asked for in the order grab, scale, warp,
  draw, then the video sink (followed by the links of the capture chain, which leaves from
  the tee). The elements of the pipeline are the five that are always there, the elements
  of the stages that were asked for and those of the capture stage. No element occurs
  twice in the display chain, so that each one is linked from the one before it only.
\<close>

theorem display_branch_linear_chain:
  "links (get_pipeline plat src br op dq sc wp cb) =
     link_pairs (set_state STATE_READY src # video_rate # display_chain cb sc wp dq) @
     link_pairs (video_tee # capture_stage_of plat br op) \<and>
   elements (get_pipeline plat src br op dq sc wp cb) =
     [set_state STATE_READY src, video_rate, video_tee, display_queue, video_sink] @
     grab_stage cb @ scale_stage sc @ warp_stage wp @ draw_stage dq @
     capture_stage_of plat br op \<and>
   distinct (display_chain cb sc wp dq)"
proof (cases "truthy_int br \<and> truthy_str op")
  case True
  then obtain b path where "br = Some b" "op = Some path" "b \<noteq> 0" "path \<noteq> []"
    by (rule truthyE)
  then show ?thesis
    by (simp add: get_pipeline_capture display_links display_elements display_chain_distinct
        Let_def)
next
  case False
  have "get_pipeline plat src br op dq sc wp cb = get_pipeline plat src None None dq sc wp cb"
    using False by (rule get_pipeline_no_capture)
  with False show ?thesis
    by (simp add: not_truthy_capture display_links display_elements display_chain_distinct)
qed

text \<open>
  C10. With the bitrate \<open>0\<close>, or with the empty output path, \<open>get_pipeline\<close>
  returns the pipeline that it returns without bitrate and output path: no capture branch
  is built, whatever the other argument is.
\<close>

theorem no_capture_for_zero_bitrate_or_empty_path:
  "get_pipeline plat src (Some 0) op dq sc wp cb = get_pipeline plat src None None dq sc wp cb \<and>
   get_pipeline plat src br (Some []) dq sc wp cb = get_pipeline plat src None None dq sc wp cb"
  using get_pipeline_no_capture [of "Some 0" op plat src dq sc wp cb]
        get_pipeline_no_capture [of br "Some []" plat src dq sc wp cb]
  by simp

section \<open>Properties of the overlay draw transform\<close>

text \<open>
  With the draw functions of \<open>CairoDrawBase\<close> (the default \<open>other_draw_on\<close> and
  the method \<open>draw_on\<close>) the transform returns \<open>FLOW_OK\<close> whatever Cairo does: both
  \<open>try\<close> blocks catch.
\<close>

lemma draw_hello_world_returns:
  "\<exists>buf' out. draw_hello_world blue env buf = Inr (buf', out)"
  by (auto simp: draw_hello_world_def split: sum.splits prod.splits)

lemma do_transform_ip_base_ok:
  "\<exists>buf' out. do_transform_ip (CairoDrawBase env None) buf = Inr (FLOW_OK, buf', out)"
  "\<exists>buf' out. do_transform_ip (CairoDrawBase env (Some (other_draw_on env))) buf =
     Inr (FLOW_OK, buf', out)"
  using draw_hello_world_returns [of 0 env buf] draw_hello_world_returns [of 1 env buf]
  by (auto simp: do_transform_ip_def CairoDrawBase_def draw_on_def other_draw_on_def)

lemma acquire_failure_keeps_buffer:
  "acquire env buf = Inl e \<Longrightarrow>
   do_transform_ip (CairoDrawQueue env q) buf =
     Inr (FLOW_OK, buf,
       case q of None \<Rightarrow> []
       | Some r \<Rightarrow> [Message ''Failed to create cairo surface for buffer'', Traceback e])"
  by (cases q) (simp_all add: do_transform_ip_def CairoDrawQueue_def CairoDrawBase_def
      render_draw_queue_def)

text \<open>
  C1 does not hold for \<open>CairoDrawQueue\<close>: \<open>render_draw_queue\<close> calls
  \<open>self.draw_queue.render(ctx)\<close> outside of any \<open>try\<close> block. With a surface that
  is acquired and a draw queue whose \<open>render\<close> raises, the exception leaves
  \<open>do_transform_ip\<close>, which returns no flow status.
\<close>

theorem render_failure_escapes_transform:
  "do_transform_ip
     (CairoDrawQueue \<lparr>acquire = (\<lambda>b. Inr ()), call = (\<lambda>c b. Inr (c # b))\<rparr>
        (Some (\<lambda>b. Inl (Exception ''render''))))
     [] = Inl (Exception ''render'')"
  by (simp add: do_transform_ip_def CairoDrawQueue_def CairoDrawBase_def render_draw_queue_def)

section \<open>Properties of the capability query\<close>

text \<open>
  Outside of Linux an empty list of devices is never returned.
\<close>

lemma get_video_source_names_other:
  "get_video_source_names Other l p = Inr devices \<Longrightarrow> devices \<noteq> []"
  by (auto simp: get_video_source_names_def Let_def split: if_splits)

text \<open>
  C7 does not hold on Linux: when the directory \<open>/dev/v4l/by-id\<close> exists and is
  empty, \<open>listdir\<close> returns the empty list and \<open>get_video_source_names\<close> returns
  it; \<open>DeviceNotFound\<close> is raised for an \<open>OSError\<close> only.
\<close>

theorem linux_empty_directory_returns_empty_list:
  "get_video_source_names Linux (Returns []) p = Inr []"
  by (simp add: get_video_source_names_def)

lemma source_frames_link_fails:
  "\<forall>d \<in> set names. pr d = LinkFails \<Longrightarrow> source_frames pandas pr names = Inr []"
  by (induction names) (auto simp: get_allowed_capabilities_def DataFrame_def)

text \<open>
  C6. \<open>get_source_capabilities\<close>, called with a list of device names for which every
  probe fails to link (the empty list is such a list), raises nothing and returns the
  empty table.
\<close>

theorem no_linkable_device_gives_empty_table:
  assumes "\<forall>d \<in> set names. probe env d = LinkFails"
  shows "get_source_capabilities env (Some names) = Inr \<lparr>columns = [], rows = []\<rparr>"
  using assms by (simp add: get_source_capabilities_def source_frames_link_fails)

theorem no_linkable_device_gives_empty_table_witness:
  "get_source_capabilities
     \<lparr>system = Linux, listdir = Raises OSError, probe_get_values_name = Returns [],
      probe = (\<lambda>d. if d = ''cam2'' then AllowedCaps [] else LinkFails),
      pandas_empty_apply = Empty_series, pandas_concat = hd\<rparr>
     (Some [''cam0'', ''cam1'']) = Inr \<lparr>columns = [], rows = []\<rparr> \<and>
   get_source_capabilities
     \<lparr>system = Linux, listdir = Raises OSError, probe_get_values_name = Returns [],
      probe = (\<lambda>d. if d = ''cam2'' then AllowedCaps [] else LinkFails),
      pandas_empty_apply = Empty_series, pandas_concat = hd\<rparr>
     (Some []) = Inr \<lparr>columns = [], rows = []\<rparr>"
  using no_linkable_device_gives_empty_table
          [of "[''cam0'', ''cam1'']"
              "\<lparr>system = Linux, listdir = Raises OSError, probe_get_values_name = Returns [],
                probe = (\<lambda>d. if d = ''cam2'' then AllowedCaps [] else LinkFails),
                pandas_empty_apply = Empty_series, pandas_concat = hd\<rparr>"]
        no_linkable_device_gives_empty_table
          [of "[]"
              "\<lparr>system = Linux, listdir = Raises OSError, probe_get_values_name = Returns [],
                probe = (\<lambda>d. if d = ''cam2'' then AllowedCaps [] else LinkFails),
                pandas_empty_apply = Empty_series, pandas_concat = hd\<rparr>"]
  by simp

section \<open>Properties of the normalisation\<close>

text \<open>
  For every table with rows \<open>expand_allowed_capabilities\<close> raises: \<open>KeyError\<close>
  when one of the four columns is missing, \<open>AttributeError\<close> otherwise (from a format
  that is no \<open>Gst.Fourcc\<close>, or from \<open>df_dimensions.width\<close>). So the loop of
  \<open>get_source_capabilities\<close> never adds a frame, and \<open>pandas.concat\<close> is never
  reached.
\<close>

lemma map_err_extract_format_error:
  "map_err extract_format xs = Inl e \<Longrightarrow> e = AttributeError"
proof (induction xs)
  case Nil
  then show ?case by simp
next
  case (Cons x xs)
  then show ?case
    by (cases x) (auto split: sum.splits)
qed

lemma apply_with_rows:
  "rows df \<noteq> [] \<Longrightarrow> getattr_column (apply_extract_dimensions pandas df) c = Inl AttributeError"
  by (simp add: apply_extract_dimensions_def getattr_column_def)

lemma expand_with_rows:
  assumes "rows df \<noteq> []"
  shows "expand_allowed_capabilities pandas df =
     (if list_all (\<lambda>l. l \<in> set (columns df)) [''framerate'', ''width'', ''height'', ''format'']
      then Inl AttributeError else Inl KeyError)"
proof (cases "list_all (\<lambda>l. l \<in> set (columns df)) [''framerate'', ''width'', ''height'', ''format'']")
  case False
  then have "drop_columns [''framerate'', ''width'', ''height'', ''format''] df = Inl KeyError"
    unfolding drop_columns_def by (simp only: if_False)
  with False show ?thesis
    by (simp add: expand_allowed_capabilities_def)
next
  case True
  then obtain dm where d: "drop_columns [''framerate'', ''width'', ''height'', ''format''] df = Inr dm"
    unfolding drop_columns_def by (simp only: if_True)
  have r: "rows (select_columns [''width'', ''height''] df) \<noteq> []"
    using assms by (simp add: select_columns_def)
  show ?thesis
  proof (cases "map_err extract_format (column ''format'' df)")
    case (Inl e)
    then have "e = AttributeError"
      by (rule map_err_extract_format_error)
    with Inl d True show ?thesis
      by (simp add: expand_allowed_capabilities_def)
  next
    case (Inr fourcc)
    with d True apply_with_rows [OF r, of pandas "''width''"] show ?thesis
      by (simp add: expand_allowed_capabilities_def Let_def)
  qed
qed

lemma expand_never_returns_rows:
  "rows df \<noteq> [] \<Longrightarrow> expand_allowed_capabilities pandas df \<noteq> Inr out"
  by (simp add: expand_with_rows)

lemma source_frames_returns_nothing:
  "source_frames pandas pr names = Inr frames \<Longrightarrow> frames = []"
proof (induction names)
  case Nil
  then show ?case by simp
next
  case (Cons d names)
  show ?case
  proof (cases "get_allowed_capabilities pr d")
    case (Inl e)
    with Cons.prems show ?thesis by simp
  next
    case (Inr raw)
    show ?thesis
    proof (cases "rows raw = []")
      case True
      with Inr Cons show ?thesis by simp
    next
      case False
      with Inr Cons.prems expand_with_rows [OF False, of pandas] show ?thesis
        by (simp split: if_splits)
    qed
  qed
qed

lemma get_source_capabilities_returns_empty:
  "get_source_capabilities env names = Inr out \<Longrightarrow> out = \<lparr>columns = [], rows = []\<rparr>"
  by (auto simp: get_source_capabilities_def split: sum.splits if_splits
      dest: source_frames_returns_nothing)

lemma map_err_num_denom_fractions:
  "map_err num_denom (map (\<lambda>nd. Fraction (fst nd) (snd nd)) pairs) = Inr pairs"
  by (induction pairs) auto

lemma extract_dimensions_values:
  "extract_dimensions (IntRange wlow whigh, IntRange hlow hhigh) = [GInt whigh, GInt hhigh]"
  "extract_dimensions (GInt w, GInt h) = [GInt w, GInt h]"
  by (simp_all add: extract_dimensions_def)

lemma extract_fps_range:
  "extract_fps (FractionRange (Fraction nlow dlow) (Fraction nhigh dhigh)) =
     Inr (if (nlow, dlow) = (nhigh, dhigh) then [(nlow, dlow)]
          else [min (nlow, dlow) (nhigh, dhigh), max (nlow, dlow) (nhigh, dhigh)])"
  by (auto simp: sorted_set_def min_def max_def)

lemma extract_fps_list:
  "extract_fps (GList (map (\<lambda>nd. Fraction (fst nd) (snd nd)) pairs)) = Inr (sort (remdups pairs))"
  by (simp add: map_err_num_denom_fractions sorted_set_def)

lemma extract_fps_scalar: "extract_fps (Fraction n d) = Inr [(n, d)]"
  by (simp add: sorted_set_def)

lemmas expand_eval = expand_allowed_capabilities_def drop_columns_def column_def cell_def
  select_columns_def apply_extract_dimensions_def getattr_column_def Let_def

lemmas source_eval = get_source_capabilities_def get_allowed_capabilities_def DataFrame_def
  caps_dict_def dict_of_def dict_cell_def float_column_def first_appearance_def

text \<open>
  C2 does not hold of the code: \<open>expand_allowed_capabilities\<close> gives no row for a
  table with a framerate that is a range, one that is a list and one that is a single
  fraction. \<open>extract_fps\<close> alone returns what the claim says (the three lemmas above),
  but \<open>df_dimensions.width\<close> raises before the framerates are expanded: the list that
  \<open>extract_dimensions\<close> returns, where its docstring promises a \<open>Series\<close>, makes
  \<open>apply\<close> give a \<open>Series\<close> of lists.
\<close>

theorem framerate_table_raises:
  "expand_allowed_capabilities pandas
     \<lparr>columns = [''format'', ''width'', ''height'', ''framerate'', ''name''],
      rows = [[Fourcc ''YUY2'', GInt 640, GInt 480,
               FractionRange (Fraction 15 1) (Fraction 30 1), GStr ''video/x-raw-yuv''],
              [Fourcc ''I420'', GInt 320, GInt 240,
               GList [Fraction 30 1, Fraction 15 2, Fraction 30 1], GStr ''video/x-raw-yuv''],
              [Fourcc ''YUY2'', GInt 640, GInt 480, Fraction 25 1, GStr ''video/x-raw-yuv'']]\<rparr> =
   Inl AttributeError"
  by (simp add: expand_eval)


text \<open>
  C9 does not hold of the code, by the same defect: for a device that links and has one
  capability, \<open>get_source_capabilities\<close> raises \<open>AttributeError\<close> and returns no
  table, whatever pandas gives for a frame without rows and whatever \<open>pandas.concat\<close>
  does. The only table that it ever returns is the empty one (lemma
  \<open>get_source_capabilities_returns_empty\<close>).
\<close>

theorem source_capabilities_raise:
  "get_source_capabilities
     \<lparr>system = Linux, listdir = Raises OSError, probe_get_values_name = Returns [],
      probe = (\<lambda>d. AllowedCaps
        [\<lparr>get_name = ''video/x-raw-yuv'',
          struct_fields = [(''format'', Fourcc ''YUY2''), (''width'', GInt 640),
            (''height'', GInt 480), (''framerate'', Fraction 30 1)]\<rparr>]),
      pandas_empty_apply = pandas, pandas_concat = pd_concat\<rparr>
     (Some [''cam0'']) = Inl AttributeError"
  by (simp add: source_eval expand_eval)

end
